theory Spec2Isabelle
  imports Complex_Main
begin

section \<open>The VSOP87 series evaluator of precompute.py\<close>

text \<open>
  The embedding follows \<^verbatim>\<open>src/precompute.py\<close>: \<^verbatim>\<open>extractCoefficients\<close>,
  \<^verbatim>\<open>computeTerm\<close> and \<^verbatim>\<open>getPlanetPosition\<close>, together with the Python builtins they
  call (\<^verbatim>\<open>str.split\<close>, \<^verbatim>\<open>int\<close>, \<^verbatim>\<open>float\<close>, list and string indexing).

  Conventions of the model:
  \<^item> a Python \<^verbatim>\<open>str\<close> is a \<open>string\<close>; a character stands for a code point below 256;
  \<^item> a Python \<^verbatim>\<open>float\<close> is a \<open>real\<close>: arithmetic is exact, rounding and overflow of
    IEEE-754 doubles are not modelled, \<^verbatim>\<open>math.cos\<close> is the real cosine;
  \<^item> an exception is the value \<open>Inl e\<close> of the result type \<open>py_error + 'a\<close>;
  \<^item> the module-level lists \<^verbatim>\<open>planetNames\<close> and \<^verbatim>\<open>indata\<close> are the fields of a record
    that every call receives and returns.
\<close>

subsection \<open>Exceptions and indexing\<close>

text \<open>
  \<open>IndexError\<close> and \<open>ValueError\<close> are the two exception classes the code can raise.
  \<open>NonFinite\<close> is no Python exception: it marks the tokens \<^verbatim>\<open>inf\<close>, \<^verbatim>\<open>infinity\<close> and
  \<^verbatim>\<open>nan\<close>, which \<^verbatim>\<open>float\<close> turns into doubles that are no real numbers; the model stops
  there.
\<close>

datatype py_error = IndexError | ValueError | NonFinite

text \<open>Python's \<^verbatim>\<open>xs[i]\<close>: a negative index counts from the end, out of range raises.\<close>

definition py_norm :: "nat \<Rightarrow> int \<Rightarrow> nat option" where
  "py_norm n i =
     (let j = (if i < 0 then i + int n else i)
      in if 0 \<le> j \<and> j < int n then Some (nat j) else None)"

definition py_index :: "'a list \<Rightarrow> int \<Rightarrow> py_error + 'a" where
  "py_index xs i =
     (case py_norm (length xs) i of
        None \<Rightarrow> Inl IndexError
      | Some j \<Rightarrow> Inr (xs ! j))"

subsection \<open>Characters, \<^verbatim>\<open>str.split\<close>, \<^verbatim>\<open>int\<close> and \<^verbatim>\<open>float\<close>\<close>

definition code :: "char \<Rightarrow> nat" where
  "code c = of_char c"

text \<open>\<^verbatim>\<open>str.isspace\<close> on the code points below 256.\<close>

definition isspace :: "char \<Rightarrow> bool" where
  "isspace c =
     ((9 \<le> code c \<and> code c \<le> 13) \<or> (28 \<le> code c \<and> code c \<le> 32)
      \<or> code c = 133 \<or> code c = 160)"

definition isdigit :: "char \<Rightarrow> bool" where
  "isdigit c = (48 \<le> code c \<and> code c \<le> 57)"

definition digit_val :: "char \<Rightarrow> nat" where
  "digit_val c = code c - 48"

text \<open>
  \<^verbatim>\<open>line.split()\<close> with no argument: the maximal runs of non-whitespace characters, in
  order. The first argument holds the characters of the run being read.
\<close>

fun split_from :: "string \<Rightarrow> string \<Rightarrow> string list" where
  "split_from w [] = (if w = [] then [] else [w])"
| "split_from w (c # cs) =
     (if isspace c then (if w = [] then split_from [] cs else w # split_from [] cs)
      else split_from (w @ [c]) cs)"

definition py_split :: "string \<Rightarrow> string list" where
  "py_split s = split_from [] s"

text \<open>\<^verbatim>\<open>int(c)\<close> for a string of one character.\<close>

definition py_int_char :: "char \<Rightarrow> py_error + int" where
  "py_int_char c = (if isdigit c then Inr (int (digit_val c)) else Inl ValueError)"

text \<open>
  \<^verbatim>\<open>float(s)\<close> for a token of \<^verbatim>\<open>split\<close> (it holds no whitespace):
  an optional sign, then \<^verbatim>\<open>inf\<close>, \<^verbatim>\<open>infinity\<close> or \<^verbatim>\<open>nan\<close> in any case, or a decimal
  number \<^verbatim>\<open>digits [. [digits]] | . digits\<close> with an optional exponent
  \<^verbatim>\<open>(e|E) [sign] digits\<close>; a single underscore may stand between two digits.
\<close>

definition lower :: "char \<Rightarrow> char" where
  "lower c = (if 65 \<le> code c \<and> code c \<le> 90 then char_of (code c + 32) else c)"

fun digitpart_from :: "bool \<Rightarrow> string \<Rightarrow> bool" where
  "digitpart_from prev_digit [] = prev_digit"
| "digitpart_from prev_digit (c # cs) =
     (if isdigit c then digitpart_from True cs
      else if c = CHR ''_'' then prev_digit \<and> cs \<noteq> [] \<and> isdigit (hd cs) \<and> digitpart_from False cs
      else False)"

definition digitpart :: "string \<Rightarrow> bool" where
  "digitpart s = digitpart_from False s"

definition digits_value :: "string \<Rightarrow> nat" where
  "digits_value s = foldl (\<lambda>a c. 10 * a + digit_val c) 0 (filter isdigit s)"

definition strip_sign :: "string \<Rightarrow> bool \<times> string" where
  "strip_sign s =
     (case s of
        [] \<Rightarrow> (False, [])
      | c # cs \<Rightarrow>
          if c = CHR ''-'' then (True, cs)
          else if c = CHR ''+'' then (False, cs)
          else (False, s))"

definition is_exp_mark :: "char \<Rightarrow> bool" where
  "is_exp_mark c = (c = CHR ''e'' \<or> c = CHR ''E'')"

definition mantissa_value :: "string \<Rightarrow> real option" where
  "mantissa_value m =
     (let ip = takeWhile (\<lambda>c. c \<noteq> CHR ''.'') m;
          rest = dropWhile (\<lambda>c. c \<noteq> CHR ''.'') m
      in if rest = [] then (if digitpart ip then Some (real (digits_value ip)) else None)
         else
           (let fp = tl rest
            in if (digitpart ip \<and> (fp = [] \<or> digitpart fp)) \<or> (ip = [] \<and> digitpart fp)
               then Some (real (digits_value ip)
                          + real (digits_value fp) / 10 ^ length (filter isdigit fp))
               else None))"

definition exponent_value :: "string \<Rightarrow> int option" where
  "exponent_value x =
     (let (neg, ds) = strip_sign x
      in if digitpart ds
         then Some (if neg then - int (digits_value ds) else int (digits_value ds))
         else None)"

definition scale10 :: "real \<Rightarrow> int \<Rightarrow> real" where
  "scale10 m e = (if 0 \<le> e then m * 10 ^ nat e else m / 10 ^ nat (- e))"

definition py_float :: "string \<Rightarrow> py_error + real" where
  "py_float s =
     (let (neg, body) = strip_sign s;
          low = map lower body
      in if low = ''inf'' \<or> low = ''infinity'' \<or> low = ''nan'' then Inl NonFinite
         else
           (let m = takeWhile (\<lambda>c. \<not> is_exp_mark c) body;
                rest = dropWhile (\<lambda>c. \<not> is_exp_mark c) body
            in case mantissa_value m of
                 None \<Rightarrow> Inl ValueError
               | Some mv \<Rightarrow>
                   (case (if rest = [] then Some 0 else exponent_value (tl rest)) of
                      None \<Rightarrow> Inl ValueError
                    | Some e \<Rightarrow> Inr ((if neg then - 1 else 1) * scale10 mv e))))"

subsection \<open>The functions of precompute.py\<close>

text \<open>\<^verbatim>\<open>line.split()[-3:]\<close>: the last three tokens, or all of them when there are fewer.\<close>

definition extractCoefficients :: "string \<Rightarrow> string list" where
  "extractCoefficients line = (let ts = py_split line in drop (length ts - 3) ts)"

text \<open>
  \<^verbatim>\<open>float(c[0]) * math.cos(float(c[1]) + float(c[2]) * T)\<close>, the operands evaluated from
  left to right, each of them able to raise.
\<close>

definition computeTerm :: "string \<Rightarrow> real \<Rightarrow> py_error + real" where
  "computeTerm line T =
     (let c = extractCoefficients line
      in case py_index c 0 of Inl e \<Rightarrow> Inl e | Inr c0 \<Rightarrow>
        (case py_float c0 of Inl e \<Rightarrow> Inl e | Inr a \<Rightarrow>
        (case py_index c 1 of Inl e \<Rightarrow> Inl e | Inr c1 \<Rightarrow>
        (case py_float c1 of Inl e \<Rightarrow> Inl e | Inr b \<Rightarrow>
        (case py_index c 2 of Inl e \<Rightarrow> Inl e | Inr c2 \<Rightarrow>
        (case py_float c2 of Inl e \<Rightarrow> Inl e | Inr f \<Rightarrow>
           Inr (a * cos (b + f * T))))))))"

text \<open>The local variables of the loop of \<^verbatim>\<open>getPlanetPosition\<close>; the field \<open>sums_tab\<close> is
  the list \<^verbatim>\<open>sums\<close> (a name HOL uses for series).\<close>

record loop_state =
  sums_tab :: "real list list"
  currentVar :: int
  currentTerm :: int

definition init_state :: loop_state where
  "init_state =
     \<lparr>sums_tab = [[0, 0, 0, 0, 0, 0], [0, 0, 0, 0, 0, 0], [0, 0, 0, 0, 0, 0]],
      currentVar = 0, currentTerm = 0\<rparr>"

text \<open>
  The two assignments of the header branch:
  \<^verbatim>\<open>currentVar = int(sublines[5][0]) - 1\<close> and \<^verbatim>\<open>currentTerm = int(sublines[7][4])\<close>.
\<close>

definition parse_header :: "string \<Rightarrow> py_error + (int \<times> int)" where
  "parse_header line =
     (let sublines = py_split line
      in case py_index sublines 5 of Inl e \<Rightarrow> Inl e | Inr t5 \<Rightarrow>
        (case py_index t5 0 of Inl e \<Rightarrow> Inl e | Inr c5 \<Rightarrow>
        (case py_int_char c5 of Inl e \<Rightarrow> Inl e | Inr v \<Rightarrow>
        (case py_index sublines 7 of Inl e \<Rightarrow> Inl e | Inr t7 \<Rightarrow>
        (case py_index t7 4 of Inl e \<Rightarrow> Inl e | Inr c7 \<Rightarrow>
        (case py_int_char c7 of Inl e \<Rightarrow> Inl e | Inr d \<Rightarrow>
           Inr (v - 1, d)))))))"

text \<open>
  \<^verbatim>\<open>sums[currentVar][currentTerm] += x\<close>: the target is read first (either index may
  raise), then the right-hand side is evaluated, then the sum is stored in the one row
  that was read; the three rows are distinct lists.
\<close>

definition accumulate :: "loop_state \<Rightarrow> string \<Rightarrow> real \<Rightarrow> py_error + loop_state" where
  "accumulate st line T =
     (case py_norm (length (sums_tab st)) (currentVar st) of
        None \<Rightarrow> Inl IndexError
      | Some i \<Rightarrow>
          (case py_norm (length (sums_tab st ! i)) (currentTerm st) of
             None \<Rightarrow> Inl IndexError
           | Some j \<Rightarrow>
               (case computeTerm line T of
                  Inl e \<Rightarrow> Inl e
                | Inr x \<Rightarrow>
                    Inr (st\<lparr>sums_tab :=
                          (sums_tab st)[i := (sums_tab st ! i)[j := sums_tab st ! i ! j + x]]\<rparr>))))"

text \<open>One iteration of the loop body, on the line \<^verbatim>\<open>indata[pI][i]\<close>.\<close>

definition step :: "real \<Rightarrow> loop_state \<Rightarrow> string \<Rightarrow> py_error + loop_state" where
  "step T st line =
     (if length line = 0 then Inr st
      else
        (case py_index line 1 of
           Inl e \<Rightarrow> Inl e
         | Inr c \<Rightarrow>
             if c = CHR ''V'' then
               (case parse_header line of
                  Inl e \<Rightarrow> Inl e
                | Inr (v, d) \<Rightarrow> Inr (st\<lparr>currentVar := v, currentTerm := d\<rparr>))
             else accumulate st line T))"

text \<open>
  The loop \<^verbatim>\<open>for i in range(len(indata[pI]))\<close> reads the lines of the table in order and
  nothing writes to the table, so it is a recursion over the list of lines; an
  exception ends it.
\<close>

fun loop :: "real \<Rightarrow> loop_state \<Rightarrow> string list \<Rightarrow> py_error + loop_state" where
  "loop T st [] = Inr st"
| "loop T st (line # rest) =
     (case step T st line of
        Inl e \<Rightarrow> Inl e
      | Inr st' \<Rightarrow> loop T st' rest)"

definition time_arg :: "real \<Rightarrow> real" where
  "time_arg jde = (jde - 2451545) / 365250"

text \<open>
  One entry of the returned list: the degrees 0 to 4 of a row of \<^verbatim>\<open>sums\<close>. The rows
  keep their six entries through the loop (\<open>loop_shape\<close> below), so every read is in
  range.
\<close>

definition coordinate :: "real list \<Rightarrow> real \<Rightarrow> real" where
  "coordinate row T =
     row ! 0 + row ! 1 * T + row ! 2 * T ^ 2 + row ! 3 * T ^ 3 + row ! 4 * T ^ 4"

definition position :: "real list list \<Rightarrow> real \<Rightarrow> real list" where
  "position s T = [coordinate (s ! 0) T, coordinate (s ! 1) T, coordinate (s ! 2) T]"

text \<open>The body of \<^verbatim>\<open>getPlanetPosition\<close> once the table of the planet is known.\<close>

definition evaluate_lines :: "string list \<Rightarrow> real \<Rightarrow> py_error + real list" where
  "evaluate_lines tbl jde =
     (let T = time_arg jde
      in case loop T init_state tbl of
           Inl e \<Rightarrow> Inl e
         | Inr st \<Rightarrow> Inr (position (sums_tab st) T))"

text \<open>The module-level state that \<^verbatim>\<open>getPlanetPosition\<close> reads.\<close>

record globals =
  planetNames :: "string list"
  indata :: "string list list"

text \<open>\<^verbatim>\<open>planetNames.index(planetName)\<close>: the first position, \<open>ValueError\<close> when absent.\<close>

fun list_index :: "'a list \<Rightarrow> 'a \<Rightarrow> py_error + nat" where
  "list_index [] x = Inl ValueError"
| "list_index (y # ys) x =
     (if y = x then Inr 0
      else (case list_index ys x of Inl e \<Rightarrow> Inl e | Inr n \<Rightarrow> Inr (Suc n)))"

text \<open>
  A call of \<^verbatim>\<open>getPlanetPosition\<close>: the value it returns (or the exception it raises)
  and the module-level state it leaves behind.
\<close>

definition getPlanetPosition ::
    "globals \<Rightarrow> string \<Rightarrow> real \<Rightarrow> (py_error + real list) \<times> globals" where
  "getPlanetPosition g planetName jde =
     (case list_index (planetNames g) planetName of
        Inl e \<Rightarrow> (Inl e, g)
      | Inr pI \<Rightarrow>
          (case py_index (indata g) (int pI) of
             Inl e \<Rightarrow> (Inl e, g)
           | Inr tbl \<Rightarrow> (evaluate_lines tbl jde, g)))"

text \<open>
  The shape of \<^verbatim>\<open>sums\<close>: three rows of six numbers, as the list literal creates it.
\<close>

definition shape :: "loop_state \<Rightarrow> bool" where
  "shape st = (length (sums_tab st) = 3 \<and> list_all (\<lambda>row. length row = 6) (sums_tab st))"

section \<open>Properties\<close>

subsection \<open>The loop body, case by case\<close>

lemma shape_init: "shape init_state"
  by (simp add: shape_def init_state_def)

lemma py_norm_less: "py_norm n i = Some j \<Longrightarrow> j < n"
  by (auto simp: py_norm_def Let_def split: if_splits)

lemma step_empty: "step T st [] = Inr st"
  by (simp add: step_def)

lemma step_short: "length l = 1 \<Longrightarrow> step T st l = Inl IndexError"
  by (simp add: step_def py_index_def py_norm_def)

lemma step_header:
  "2 \<le> length l \<Longrightarrow> l ! 1 = CHR ''V'' \<Longrightarrow>
   step T st l =
     (case parse_header l of
        Inl e \<Rightarrow> Inl e
      | Inr (v, d) \<Rightarrow> Inr (st\<lparr>currentVar := v, currentTerm := d\<rparr>))"
  by (auto simp: step_def py_index_def py_norm_def)

lemma step_data:
  "2 \<le> length l \<Longrightarrow> l ! 1 \<noteq> CHR ''V'' \<Longrightarrow> step T st l = accumulate st l T"
  by (auto simp: step_def py_index_def py_norm_def)

lemma accumulate_shape: "shape st \<Longrightarrow> accumulate st l T = Inr st' \<Longrightarrow> shape st'"
  by (auto simp: accumulate_def shape_def list_all_length nth_list_update
      split: option.splits sum.splits dest: py_norm_less)

lemma accumulate_vars:
  "accumulate st l T = Inr st' \<Longrightarrow> currentVar st' = currentVar st \<and> currentTerm st' = currentTerm st"
  by (auto simp: accumulate_def split: option.splits sum.splits)

lemma step_shape:
  assumes "shape st" and "step T st l = Inr st'"
  shows "shape st'"
proof (cases "length l = 0 \<or> 2 \<le> length l \<and> l ! 1 = CHR ''V''")
  case True
  with assms show ?thesis
    by (auto simp: step_empty step_header shape_def split: sum.splits prod.splits)
next
  case False
  then have "length l = 1 \<or> 2 \<le> length l \<and> l ! 1 \<noteq> CHR ''V''"
    by (cases "length l") auto
  with assms show ?thesis
    by (auto simp: step_short step_data dest: accumulate_shape)
qed

lemma loop_shape: "shape st \<Longrightarrow> loop T st ls = Inr st' \<Longrightarrow> shape st'"
proof (induction ls arbitrary: st)
  case Nil
  then show ?case by simp
next
  case (Cons l ls)
  then show ?case
    by (auto split: sum.splits dest: step_shape)
qed

lemma loop_append:
  "loop T st (xs @ ys) = (case loop T st xs of Inl e \<Rightarrow> Inl e | Inr st' \<Rightarrow> loop T st' ys)"
  by (induction xs arbitrary: st) (auto split: sum.splits)

lemma loop_blanks: "loop T st (replicate n []) = Inr st"
  by (induction n) (simp_all add: step_empty)

lemma accumulate_degree_out_of_range:
  "shape st \<Longrightarrow> 5 < currentTerm st \<Longrightarrow> accumulate st l T = Inl IndexError"
  by (auto simp: accumulate_def shape_def list_all_length py_norm_def Let_def
      split: option.splits if_splits)

lemma loop_skip_blank: "loop T st (xs @ [] # ys) = loop T st (xs @ ys)"
  by (induction xs arbitrary: st) (auto simp: step_empty split: sum.splits)

subsection \<open>Evaluating sample lines\<close>

text \<open>
  The definitions to unfold when a concrete line is evaluated, and the values of the lines
  that the examples below are built from: a series header of a VSOP87 file with the
  variable number 1 and the degree 0, 3, 5 or 7, and the data line \<^verbatim>\<open>1.0 0.0 0.0\<close>.
\<close>

lemmas token_defs =
  py_split_def isspace_def code_def py_index_def py_norm_def py_int_char_def isdigit_def
  digit_val_def extractCoefficients_def

lemmas float_defs =
  py_float_def strip_sign_def lower_def is_exp_mark_def mantissa_value_def digitpart_def
  digits_value_def scale10_def exponent_value_def

lemma parse_header_degree_0:
  "parse_header '' VSOP87 VERSION C1 MERCURY VARIABLE 1 (XYZ) *T**0 1853 TERMS'' = Inr (0, 0)"
  by (simp add: parse_header_def token_defs)

lemma parse_header_degree_3:
  "parse_header '' VSOP87 VERSION C1 MERCURY VARIABLE 1 (XYZ) *T**3 1853 TERMS'' = Inr (0, 3)"
  by (simp add: parse_header_def token_defs)

lemma parse_header_degree_5:
  "parse_header '' VSOP87 VERSION C1 MERCURY VARIABLE 1 (XYZ) *T**5 1853 TERMS'' = Inr (0, 5)"
  by (simp add: parse_header_def token_defs)

lemma parse_header_degree_7:
  "parse_header '' VSOP87 VERSION C1 MERCURY VARIABLE 1 (XYZ) *T**7 1853 TERMS'' = Inr (0, 7)"
  by (simp add: parse_header_def token_defs)

lemma computeTerm_unit: "computeTerm ''1.0 0.0 0.0'' T = Inr 1"
  by (simp add: computeTerm_def token_defs float_defs)

lemmas sample_steps =
  step_header step_data parse_header_degree_0 parse_header_degree_3 parse_header_degree_5
  parse_header_degree_7 computeTerm_unit accumulate_def init_state_def py_norm_def

subsection \<open>Blank lines\<close>

text \<open>
  The guard \<^verbatim>\<open>if len(line) == 0: continue\<close> skips the string of length zero: the
  state is returned as it was and nothing is raised.
\<close>

lemma empty_string_skipped:
  "step T st [] = Inr st
   \<and> loop T st (xs @ [] # ys) = loop T st (xs @ ys)
   \<and> evaluate_lines (xs @ [] # ys) jde = evaluate_lines (xs @ ys) jde"
  by (simp add: loop_skip_blank step_empty evaluate_lines_def)

text \<open>
  Claim C3. The claim asks that a blank line be skipped without error and that the
  result be the one of the table without it. \<^verbatim>\<open>readfile\<close> fills \<^verbatim>\<open>indata\<close> with
  \<^verbatim>\<open>readlines()\<close>, which keeps the newline of every line: a blank line of the file is
  the string of the one character newline, never the string of length zero. It passes
  the guard \<^verbatim>\<open>len(line) == 0\<close> and the next test, \<^verbatim>\<open>line[1] == 'V'\<close>, raises
  \<open>IndexError\<close>. With a blank line between a header and a data line the call raises;
  without it the call returns \<open>[0, 0, 0]\<close>.
\<close>

theorem blank_line_raises:
  "step 0 init_state ''\<newline>'' = Inl IndexError
   \<and> evaluate_lines
       ['' VSOP87 VERSION C1 MERCURY VARIABLE 1 (XYZ) *T**3 1853 TERMS'', ''\<newline>'',
        ''1.0 0.0 0.0'']
       2451545
     = Inl IndexError
   \<and> evaluate_lines
       ['' VSOP87 VERSION C1 MERCURY VARIABLE 1 (XYZ) *T**3 1853 TERMS'', ''1.0 0.0 0.0'']
       2451545
     = Inr [0, 0, 0]"
  by (simp add: evaluate_lines_def time_arg_def position_def coordinate_def sample_steps
      step_short)

subsection \<open>The polynomial in \<open>T\<close>\<close>

lemma coordinate_sum: "coordinate row T = (\<Sum>d<5. row ! d * T ^ d)"
  by (simp add: coordinate_def eval_nat_numeral lessThan_Suc algebra_simps)

lemma evaluate_lines_degrees_0_to_4:
  "loop (time_arg jde) init_state tbl = Inr st \<Longrightarrow>
   evaluate_lines tbl jde =
     Inr (map (\<lambda>v. \<Sum>d<5. sums_tab st ! v ! d * time_arg jde ^ d) [0, 1, 2])"
  by (simp add: evaluate_lines_def position_def coordinate_sum Let_def)

text \<open>
  Claim C1. The claim asks for the sum over the six degrees 0 to 5. The code allocates
  six buckets for each variable and accumulates terms into bucket 5, but the returned
  expression stops at \<^verbatim>\<open>sums[v][4] * pow(T, 4)\<close> (see \<open>evaluate_lines_degrees_0_to_4\<close>).
  At the table below, one term of amplitude 1 under a header of degree 5, and at
  \<^verbatim>\<open>jde = 2816795\<close>, where \<open>T = 1\<close>, bucket \<open>(0, 5)\<close> holds 1 and the sum over the six
  degrees is 1, while the code returns 0 for variable 0.
\<close>

theorem degree_5_bucket_dropped:
  "loop 1 init_state
     ['' VSOP87 VERSION C1 MERCURY VARIABLE 1 (XYZ) *T**5 1853 TERMS'', ''1.0 0.0 0.0'']
   = Inr \<lparr>sums_tab = [[0, 0, 0, 0, 0, 1], [0, 0, 0, 0, 0, 0], [0, 0, 0, 0, 0, 0]],
          currentVar = 0, currentTerm = 5\<rparr>
   \<and> time_arg 2816795 = 1
   \<and> evaluate_lines
       ['' VSOP87 VERSION C1 MERCURY VARIABLE 1 (XYZ) *T**5 1853 TERMS'', ''1.0 0.0 0.0'']
       2816795
     = Inr [0, 0, 0]
   \<and> (\<Sum>d<6. [0, 0, 0, 0, 0, 1 :: real] ! d * 1 ^ d) = 1"
  by (simp add: evaluate_lines_def time_arg_def position_def coordinate_def
      sample_steps lessThan_Suc eval_nat_numeral)

subsection \<open>A data line before any header\<close>

lemma accumulate_init:
  "accumulate init_state d T =
     (case computeTerm d T of
        Inl e \<Rightarrow> Inl e
      | Inr x \<Rightarrow>
          Inr (init_state
                \<lparr>sums_tab := [[x, 0, 0, 0, 0, 0], [0, 0, 0, 0, 0, 0], [0, 0, 0, 0, 0, 0]]\<rparr>))"
  by (simp add: accumulate_def init_state_def py_norm_def split: sum.splits)

text \<open>
  Claim C2, as stated, fails: the code has no \<^verbatim>\<open>DataBeforeHeader\<close> error. A table whose
  only line is a data line is evaluated without error.
\<close>

theorem data_before_header_counterexample:
  "evaluate_lines [''1.0 0.0 0.0''] 2451545 = Inr [1, 0, 0]"
  by (simp add: evaluate_lines_def time_arg_def position_def coordinate_def sample_steps)

text \<open>
  Claim C2, amended. A data line (length at least two, second character not \<^verbatim>\<open>V\<close>) that
  comes before any header line, after any number of empty lines, raises no error of its
  own position: its term is added to bucket \<open>(0, 0)\<close>, the initial values of
  \<^verbatim>\<open>currentVar\<close> and \<^verbatim>\<open>currentTerm\<close>, and the loop goes on; the only exceptions at that line
  are those of \<^verbatim>\<open>computeTerm\<close> on its last three tokens.
\<close>

theorem data_before_header_defaults:
  assumes "2 \<le> length d" and "d ! 1 \<noteq> CHR ''V''"
  shows "loop T init_state (replicate n [] @ d # rest) =
     (case computeTerm d T of
        Inl e \<Rightarrow> Inl e
      | Inr x \<Rightarrow>
          loop T
            (init_state
              \<lparr>sums_tab := [[x, 0, 0, 0, 0, 0], [0, 0, 0, 0, 0, 0], [0, 0, 0, 0, 0, 0]]\<rparr>)
            rest)"
  using assms
  by (simp add: loop_append loop_blanks step_data accumulate_init split: sum.splits)

theorem data_before_header_defaults_witness:
  "loop 0 init_state ([] # ''1.0 0.0 0.0'' # []) =
     Inr (init_state
           \<lparr>sums_tab := [[1, 0, 0, 0, 0, 0], [0, 0, 0, 0, 0, 0], [0, 0, 0, 0, 0, 0]]\<rparr>)"
  using data_before_header_defaults [of "''1.0 0.0 0.0''" 0 1 "[]"]
  by (simp add: computeTerm_unit)

subsection \<open>A degree beyond the six buckets\<close>

text \<open>
  Claim C4, as stated, fails: a header that declares degree 7 raises nothing by itself;
  a table that holds only that header is evaluated without error.
\<close>

theorem degree_out_of_range_counterexample:
  "evaluate_lines ['' VSOP87 VERSION C1 MERCURY VARIABLE 1 (XYZ) *T**7 1853 TERMS''] 2451545
   = Inr [0, 0, 0]"
  by (simp add: evaluate_lines_def time_arg_def position_def coordinate_def sample_steps)

text \<open>
  Claim C4, amended. The header line only stores the degree. When the next non-empty
  line after a header of degree above 5 is a data line, and the lines before the header
  raised nothing, the loop ends there with \<open>IndexError\<close>: the read of
  \<^verbatim>\<open>sums[currentVar][currentTerm]\<close> is out of range, and no term is accumulated.
\<close>

theorem degree_out_of_range_at_data_line:
  assumes "loop T init_state pre = Inr st"
    and "2 \<le> length h" and "h ! 1 = CHR ''V''" and "parse_header h = Inr (v, k)" and "5 < k"
    and "2 \<le> length d" and "d ! 1 \<noteq> CHR ''V''"
  shows "loop T init_state (pre @ h # replicate n [] @ d # rest) = Inl IndexError"
proof -
  have "shape st"
    using assms(1) shape_init by (rule loop_shape [rotated])
  then have sh: "shape (st\<lparr>currentVar := v, currentTerm := k\<rparr>)"
    by (simp add: shape_def)
  have "accumulate (st\<lparr>currentVar := v, currentTerm := k\<rparr>) d T = Inl IndexError"
    using sh assms(5) by (simp add: accumulate_degree_out_of_range)
  with assms show ?thesis
    by (simp add: loop_append loop_blanks step_header step_data)
qed

theorem degree_out_of_range_at_data_line_witness:
  "loop 0 init_state
     ([] @ '' VSOP87 VERSION C1 MERCURY VARIABLE 1 (XYZ) *T**7 1853 TERMS''
        # replicate 0 [] @ ''1.0 0.0 0.0'' # [])
   = Inl IndexError"
proof -
  show ?thesis
    using parse_header_degree_7 degree_out_of_range_at_data_line
      [of 0 "[]" init_state "'' VSOP87 VERSION C1 MERCURY VARIABLE 1 (XYZ) *T**7 1853 TERMS''"
        0 7 "''1.0 0.0 0.0''" 0 "[]"]
    by simp
qed

subsection \<open>The epoch J2000.0\<close>

text \<open>
  Claim C5. At \<^verbatim>\<open>jde = 2451545\<close> the time argument is exactly 0, the loop runs with
  \<open>T = 0\<close>, and for every table that is read without an exception each returned
  coordinate is the degree-0 bucket of its variable: the terms of the higher degrees
  are multiplied by a power of 0. An exception of the loop is the exception of the call.
\<close>

theorem epoch_uses_degree_0:
  "time_arg 2451545 = 0
   \<and> evaluate_lines tbl 2451545 =
       (case loop 0 init_state tbl of
          Inl e \<Rightarrow> Inl e
        | Inr st \<Rightarrow> Inr [sums_tab st ! 0 ! 0, sums_tab st ! 1 ! 0, sums_tab st ! 2 ! 0])"
  by (simp add: evaluate_lines_def time_arg_def position_def coordinate_def split: sum.splits)

theorem epoch_uses_degree_0_witness:
  "evaluate_lines
     ['' VSOP87 VERSION C1 MERCURY VARIABLE 1 (XYZ) *T**0 1853 TERMS'', ''1.0 0.0 0.0'',
      '' VSOP87 VERSION C1 MERCURY VARIABLE 1 (XYZ) *T**3 1853 TERMS'', ''1.0 0.0 0.0'']
     2451545
   = Inr [1, 0, 0]"
  using epoch_uses_degree_0
    [of "['' VSOP87 VERSION C1 MERCURY VARIABLE 1 (XYZ) *T**0 1853 TERMS'', ''1.0 0.0 0.0'',
          '' VSOP87 VERSION C1 MERCURY VARIABLE 1 (XYZ) *T**3 1853 TERMS'', ''1.0 0.0 0.0'']"]
  by (simp add: sample_steps)

subsection \<open>One header and one term\<close>




subsection \<open>Header lines and data lines\<close>

text \<open>
  Claim C10, as stated, fails for a non-empty line that has no character at index 1:
  the line \<^verbatim>\<open>x\<close> is no header, but it is not parsed for a term either. The code raises
  \<open>IndexError\<close>, where parsing \<^verbatim>\<open>x\<close> as a data line would raise \<open>ValueError\<close>.
\<close>

theorem short_line_counterexample:
  "step 0 init_state ''x'' = Inl IndexError \<and> accumulate init_state ''x'' 0 = Inl ValueError"
  by (simp add: step_short accumulate_def init_state_def computeTerm_def token_defs float_defs)

text \<open>
  Claim C10, amended. A line of length at least two is a header line if and only if
  its character at index 1 is \<^verbatim>\<open>V\<close>: then only \<^verbatim>\<open>currentVar\<close> and \<^verbatim>\<open>currentTerm\<close> are
  assigned (or the header parse raises) and \<^verbatim>\<open>sums\<close> is unchanged, so a data line whose
  second character is \<^verbatim>\<open>V\<close> is consumed as a header and contributes no term. Every
  other line of length at least two is parsed for a term, whatever else it holds.
\<close>

theorem line_classification:
  "(2 \<le> length l \<and> l ! 1 = CHR ''V'' \<longrightarrow>
        step T st l =
          (case parse_header l of
             Inl e \<Rightarrow> Inl e
           | Inr (v, d) \<Rightarrow> Inr (st\<lparr>currentVar := v, currentTerm := d\<rparr>)))
   \<and> (2 \<le> length l \<and> l ! 1 = CHR ''V'' \<and> step T st l = Inr st' \<longrightarrow>
        sums_tab st' = sums_tab st)
   \<and> (2 \<le> length l \<and> l ! 1 \<noteq> CHR ''V'' \<longrightarrow> step T st l = accumulate st l T)"
  by (auto simp: step_header step_data split: sum.splits)

theorem line_classification_witness:
  "step 0 init_state ''1V a b c d 2 x 12345 1.0 0.0 0.0''
       = Inr (init_state\<lparr>currentVar := 1, currentTerm := 5\<rparr>)
   \<and> sums_tab (init_state\<lparr>currentVar := 1, currentTerm := 5\<rparr>) = sums_tab init_state
   \<and> step 0 init_state ''1.0 0.0 0.0'' = accumulate init_state ''1.0 0.0 0.0'' 0"
proof -
  have "parse_header ''1V a b c d 2 x 12345 1.0 0.0 0.0'' = Inr (1, 5)"
    by (simp add: parse_header_def token_defs)
  then show ?thesis
    using line_classification [of "''1V a b c d 2 x 12345 1.0 0.0 0.0''" 0 init_state
        "init_state\<lparr>currentVar := 1, currentTerm := 5\<rparr>"]
      line_classification [of "''1.0 0.0 0.0''" 0 init_state init_state]
    by simp
qed

subsection \<open>The module-level state\<close>

lemma getPlanetPosition_result:
  "list_index (planetNames g) p = Inr i \<Longrightarrow> py_index (indata g) (int i) = Inr tbl \<Longrightarrow>
   fst (getPlanetPosition g p jde) = evaluate_lines tbl jde"
  by (simp add: getPlanetPosition_def)

lemma getPlanetPosition_globals: "snd (getPlanetPosition g p jde) = g"
  by (simp add: getPlanetPosition_def split: sum.splits)

text \<open>
  Claim C8. Two invocations with the same planet and the same \<^verbatim>\<open>jde\<close> return the same
  value or raise the same exception: the second call, made in the state the first one
  left, gives what the first gave, and the outcome depends on the module-level state
  only through \<^verbatim>\<open>planetNames\<close> and \<^verbatim>\<open>indata\<close>.
\<close>

theorem evaluation_deterministic:
  "fst (getPlanetPosition (snd (getPlanetPosition g p jde)) p jde) = fst (getPlanetPosition g p jde)
   \<and> (planetNames g' = planetNames g \<and> indata g' = indata g \<longrightarrow>
        fst (getPlanetPosition g' p jde) = fst (getPlanetPosition g p jde))"
  by (auto simp: getPlanetPosition_globals getPlanetPosition_def split: sum.splits)

theorem evaluation_deterministic_witness:
  "fst (getPlanetPosition
         (snd (getPlanetPosition
                \<lparr>planetNames =
                  [''MERCURY'', ''VENUS'', ''EARTH'', ''MARS'', ''JUPITER'', ''SATURN'', ''URANUS'',
                   ''NEPTUNE''],
                indata =
                  [['' VSOP87 VERSION C1 MERCURY VARIABLE 1 (XYZ) *T**0 1853 TERMS'', ''1.0 0.0 0.0''],
                   [], [], [], [], [], [], []]\<rparr>
                ''MERCURY'' 2451545))
         ''MERCURY'' 2451545)
   = Inr [1, 0, 0]"
  using evaluation_deterministic
    [of "\<lparr>planetNames =
         [''MERCURY'', ''VENUS'', ''EARTH'', ''MARS'', ''JUPITER'', ''SATURN'', ''URANUS'',
          ''NEPTUNE''],
       indata =
         [['' VSOP87 VERSION C1 MERCURY VARIABLE 1 (XYZ) *T**0 1853 TERMS'', ''1.0 0.0 0.0''],
          [], [], [], [], [], [], []]\<rparr>"
      "''MERCURY''" 2451545
      "\<lparr>planetNames =
         [''MERCURY'', ''VENUS'', ''EARTH'', ''MARS'', ''JUPITER'', ''SATURN'', ''URANUS'',
          ''NEPTUNE''],
       indata =
         [['' VSOP87 VERSION C1 MERCURY VARIABLE 1 (XYZ) *T**0 1853 TERMS'', ''1.0 0.0 0.0''],
          [], [], [], [], [], [], []]\<rparr>"]
  by (simp add: getPlanetPosition_def py_index_def evaluate_lines_def time_arg_def
      position_def coordinate_def sample_steps)

text \<open>
  Claim C9. A call leaves the table unchanged: the module-level state after the call,
  and with it \<^verbatim>\<open>indata\<close>, is the state before the call, whether the call returns or
  raises.
\<close>

theorem table_unchanged:
  "snd (getPlanetPosition g p jde) = g \<and> indata (snd (getPlanetPosition g p jde)) = indata g"
  by (simp add: getPlanetPosition_globals)

theorem table_unchanged_witness:
  "indata
     (snd (getPlanetPosition
            \<lparr>planetNames =
              [''MERCURY'', ''VENUS'', ''EARTH'', ''MARS'', ''JUPITER'', ''SATURN'', ''URANUS'',
               ''NEPTUNE''],
            indata =
              [['' VSOP87 VERSION C1 MERCURY VARIABLE 1 (XYZ) *T**0 1853 TERMS'', ''1.0 0.0 0.0''],
               [], [], [], [], [], [], []]\<rparr>
            ''MERCURY'' 2451545))
   = [['' VSOP87 VERSION C1 MERCURY VARIABLE 1 (XYZ) *T**0 1853 TERMS'', ''1.0 0.0 0.0''],
      [], [], [], [], [], [], []]"
  using table_unchanged
    [of "\<lparr>planetNames =
         [''MERCURY'', ''VENUS'', ''EARTH'', ''MARS'', ''JUPITER'', ''SATURN'', ''URANUS'',
          ''NEPTUNE''],
       indata =
         [['' VSOP87 VERSION C1 MERCURY VARIABLE 1 (XYZ) *T**0 1853 TERMS'', ''1.0 0.0 0.0''],
          [], [], [], [], [], [], []]\<rparr>"
      "''MERCURY''" 2451545]
  by simp

end
